theory Spec2Isabelle
  imports Main
begin

section \<open>The response types of response.go\<close>

text \<open>
  The four structs of \<^verbatim>\<open>response.go\<close>, field for field. A Go \<^verbatim>\<open>string\<close> is a
  sequence of bytes, here a \<^typ>\<open>string\<close>; a slice is a list (the nil slice and the
  empty slice are both \<^term>\<open>[]\<close>). Several structs have a field of the same name
  (\<^verbatim>\<open>RequestID\<close>, \<^verbatim>\<open>Message\<close>); such a field is written with its struct's name in
  front where the struct is not the last one declared.
\<close>

record BasicResponse =
  RequestID :: string

record errorResponseDetail =
  Message :: string
  Property :: string

record ErrorResponse =
  RequestID :: string
  Message :: string
  Details :: "errorResponseDetail list"

record UserProfileResponse =
  RequestID :: string
  UserID :: string
  DisplayName :: string
  PicutureURL :: string
  StatusMessage :: string

text \<open>
  An \<^verbatim>\<open>io.ReadCloser\<close>: the bytes not yet read from the stream and whether it has been
  closed. The decoders never read or close a stream themselves; only the library's
  \<^verbatim>\<open>Decode\<close> reads from it.
\<close>

record ReadCloser =
  unread :: string
  closed :: bool

record MessageContentResponse =
  Content :: ReadCloser
  FileName :: string

text \<open>
  The three fields of \<^verbatim>\<open>http.Response\<close> the decoders look at. \<^verbatim>\<open>http.Header\<close> is a
  \<^verbatim>\<open>map[string][]string\<close> whose keys are in canonical form.
\<close>

record http_Response =
  StatusCode :: int
  Header :: "string \<rightharpoonup> string list"
  Body :: ReadCloser

text \<open>
  Modelled from the spec: \<^verbatim>\<open>APIError {code: int, response: *ErrorResponse | absent}\<close>. The
  declaration of the struct is not among the source files; its two fields are the ones
  \<^verbatim>\<open>response.go\<close> assigns (\<^verbatim>\<open>Code: res.StatusCode\<close>, \<^verbatim>\<open>Response: &result\<close>) and the test
  file compares. A nil \<^verbatim>\<open>Response\<close> pointer is \<^term>\<open>None\<close>.
\<close>

record APIError =
  Code :: int
  Response :: "ErrorResponse option"

text \<open>
  A value of Go's \<^verbatim>\<open>error\<close> interface, as far as the decoders return one: a pointer to an
  \<^verbatim>\<open>APIError\<close> they build themselves, or the error value \<^typ>\<open>'e\<close> a library call
  handed them.
\<close>

datatype 'e error = APIError_ptr APIError | library_error 'e

text \<open>
  A decoder returns \<^verbatim>\<open>(*T, error)\<close> with exactly one of the two non-nil: \<^term>\<open>Inl err\<close>
  is \<^verbatim>\<open>(nil, err)\<close> and \<^term>\<open>Inr v\<close> is \<^verbatim>\<open>(&v, nil)\<close>.
\<close>

fun api_error_code :: "'e error + 'a \<Rightarrow> int option" where
  "api_error_code (Inl (APIError_ptr a)) = Some (Code a)"
| "api_error_code (Inl (library_error e)) = None"
| "api_error_code (Inr v) = None"

fun is_APIError :: "'e error + 'a \<Rightarrow> bool" where
  "is_APIError (Inl (APIError_ptr a)) = True"
| "is_APIError (Inl (library_error e)) = False"
| "is_APIError (Inr v) = False"

section \<open>The library calls the decoders make\<close>

text \<open>
  The decoders call two functions of Go's standard library. Their code is no part of
  this repository, so each is an argument of the decoder that calls it, and every theorem
  holds whatever the library computes.

  \<^item> \<^verbatim>\<open>json.NewDecoder(body).Decode(&v)\<close> reads from \<^verbatim>\<open>body\<close>, may store into \<^verbatim>\<open>v\<close>, and
    returns an error or nil: a function from the stream and the value \<^verbatim>\<open>v\<close> holds to
    the error (\<^term>\<open>None\<close> is nil), the value \<^verbatim>\<open>v\<close> holds afterwards and the stream
    afterwards. Go decodes by reflection on the type of \<^verbatim>\<open>v\<close>; here there is one such
    function for each type decoded into.
  \<^item> \<^verbatim>\<open>mime.ParseMediaType(s)\<close> returns the media type, its parameters and an error.
\<close>

type_synonym ('e, 'a) Decode = "ReadCloser \<Rightarrow> 'a \<Rightarrow> 'e option \<times> 'a \<times> ReadCloser"

type_synonym 'e ParseMediaType = "string \<Rightarrow> string \<times> (string \<rightharpoonup> string) \<times> 'e option"

definition StatusOK :: int where
  "StatusOK = 200"

text \<open>
  \<^verbatim>\<open>Header.Get(key)\<close>: the first value stored under the key, or the empty string when
  there is none. (\<^verbatim>\<open>Get\<close> first brings the key into canonical form; the one key the
  decoders ask for, \<^verbatim>\<open>Content-Disposition\<close>, is in that form already.)
\<close>

definition Header_Get :: "(string \<rightharpoonup> string list) \<Rightarrow> string \<Rightarrow> string" where
  "Header_Get h key = (case h key of None \<Rightarrow> [] | Some [] \<Rightarrow> [] | Some (v # vs) \<Rightarrow> v)"

text \<open>
  A lookup in a Go \<^verbatim>\<open>map[string]string\<close>: the zero value, the empty string, for a key
  that is absent.
\<close>

definition map_index :: "(string \<rightharpoonup> string) \<Rightarrow> string \<Rightarrow> string" where
  "map_index m key = (case m key of None \<Rightarrow> [] | Some v \<Rightarrow> v)"

text \<open>The zero values \<^verbatim>\<open>ErrorResponse{}\<close>, \<^verbatim>\<open>BasicResponse{}\<close> and \<^verbatim>\<open>UserProfileResponse{}\<close>.\<close>

definition ErrorResponse_zero :: ErrorResponse where
  "ErrorResponse_zero =
     \<lparr>ErrorResponse.RequestID = [], ErrorResponse.Message = [], Details = []\<rparr>"

definition BasicResponse_zero :: BasicResponse where
  "BasicResponse_zero = \<lparr>BasicResponse.RequestID = []\<rparr>"

definition UserProfileResponse_zero :: UserProfileResponse where
  "UserProfileResponse_zero =
     \<lparr>RequestID = [], UserID = [], DisplayName = [], PicutureURL = [], StatusMessage = []\<rparr>"

section \<open>The decoders\<close>

text \<open>
  Each decoder returns its Go result and the state in which it leaves the body stream
  of the response.

  \<^verbatim>\<open>
  func decodeToBasicResponse(res *http.Response) (*BasicResponse, error) {
      decoder := json.NewDecoder(res.Body)
      if res.StatusCode != http.StatusOK {
          result := ErrorResponse{}
          if err := decoder.Decode(&result); err != nil {
              return nil, &APIError{Code: res.StatusCode}
          }
          return nil, &APIError{Code: res.StatusCode, Response: &result}
      }
      result := BasicResponse{}
      if err := decoder.Decode(&result); err != nil {
          return nil, err
      }
      return &result, nil
  }
  \<close>
\<close>

definition decodeToBasicResponse ::
  "('e, ErrorResponse) Decode \<Rightarrow> ('e, BasicResponse) Decode \<Rightarrow> http_Response \<Rightarrow>
     ('e error + BasicResponse) \<times> ReadCloser" where
  "decodeToBasicResponse DecodeError DecodeBasic res =
     (if StatusCode res \<noteq> StatusOK then
        (case DecodeError (Body res) ErrorResponse_zero of
           (Some err, result, body) \<Rightarrow>
             (Inl (APIError_ptr \<lparr>Code = StatusCode res, Response = None\<rparr>), body)
         | (None, result, body) \<Rightarrow>
             (Inl (APIError_ptr \<lparr>Code = StatusCode res, Response = Some result\<rparr>), body))
      else
        (case DecodeBasic (Body res) BasicResponse_zero of
           (Some err, result, body) \<Rightarrow> (Inl (library_error err), body)
         | (None, result, body) \<Rightarrow> (Inr result, body)))"

definition decodeToUserProfileResponse ::
  "('e, ErrorResponse) Decode \<Rightarrow> ('e, UserProfileResponse) Decode \<Rightarrow> http_Response \<Rightarrow>
     ('e error + UserProfileResponse) \<times> ReadCloser" where
  "decodeToUserProfileResponse DecodeError DecodeProfile res =
     (if StatusCode res \<noteq> StatusOK then
        (case DecodeError (Body res) ErrorResponse_zero of
           (Some err, result, body) \<Rightarrow>
             (Inl (APIError_ptr \<lparr>Code = StatusCode res, Response = None\<rparr>), body)
         | (None, result, body) \<Rightarrow>
             (Inl (APIError_ptr \<lparr>Code = StatusCode res, Response = Some result\<rparr>), body))
      else
        (case DecodeProfile (Body res) UserProfileResponse_zero of
           (Some err, result, body) \<Rightarrow> (Inl (library_error err), body)
         | (None, result, body) \<Rightarrow> (Inr result, body)))"

text \<open>
  The content decoder builds a JSON decoder on the body as the other two do, and uses
  it on the error path only: with status 200 nothing reads the body, and the stream
  itself becomes the \<^verbatim>\<open>Content\<close> of the result.

  \<^verbatim>\<open>
      _, params, err := mime.ParseMediaType(res.Header.Get("Content-Disposition"))
      if err != nil {
          return nil, err
      }
      result := MessageContentResponse{Content: res.Body, FileName: params["filename"]}
      return &result, nil
  \<close>
\<close>

definition decodeToMessageContentResponse ::
  "('e, ErrorResponse) Decode \<Rightarrow> 'e ParseMediaType \<Rightarrow> http_Response \<Rightarrow>
     ('e error + MessageContentResponse) \<times> ReadCloser" where
  "decodeToMessageContentResponse DecodeError ParseMediaType res =
     (if StatusCode res \<noteq> StatusOK then
        (case DecodeError (Body res) ErrorResponse_zero of
           (Some err, result, body) \<Rightarrow>
             (Inl (APIError_ptr \<lparr>Code = StatusCode res, Response = None\<rparr>), body)
         | (None, result, body) \<Rightarrow>
             (Inl (APIError_ptr \<lparr>Code = StatusCode res, Response = Some result\<rparr>), body))
      else
        (case ParseMediaType (Header_Get (Header res) ''Content-Disposition'') of
           (mediatype, params, Some err) \<Rightarrow> (Inl (library_error err), Body res)
         | (mediatype, params, None) \<Rightarrow>
             (Inr \<lparr>Content = Body res, FileName = map_index params ''filename''\<rparr>, Body res)))"

subsection \<open>The error branch\<close>

text \<open>
  With a status other than 200 all three decoders run the same code: decode the body as
  an \<^verbatim>\<open>ErrorResponse\<close> and wrap the outcome in an \<^verbatim>\<open>APIError\<close>.
\<close>

definition error_branch ::
  "('e, ErrorResponse) Decode \<Rightarrow> http_Response \<Rightarrow> ('e error + 'a) \<times> ReadCloser" where
  "error_branch DecodeError res =
     (case DecodeError (Body res) ErrorResponse_zero of
        (err, result, body) \<Rightarrow>
          (Inl (APIError_ptr \<lparr>Code = StatusCode res,
                  Response = (case err of None \<Rightarrow> Some result | Some e \<Rightarrow> None)\<rparr>), body))"

section \<open>Messages and the push envelope\<close>

text \<open>
  Modelled from the spec: the message variants of its data model,
  \<^verbatim>\<open>Text{text}\<close>, \<^verbatim>\<open>Image{originalContentUrl, previewImageUrl}\<close>,
  \<^verbatim>\<open>Location{title, address, latitude, longitude}\<close> and \<^verbatim>\<open>Sticker{packageId, stickerId}\<close>.
  The constructors \<^verbatim>\<open>NewTextMessage\<close>, \<^verbatim>\<open>NewImageMessage\<close>, \<^verbatim>\<open>NewLocationMessage\<close> and
  \<^verbatim>\<open>NewStickerMessage\<close> are called by the test file and defined in none of the source
  files. A latitude or a longitude is a \<^verbatim>\<open>float64\<close> in Go, here a value of any type
  \<^typ>\<open>'f\<close>.
\<close>

datatype 'f Message =
  NewTextMessage string
| NewImageMessage string string
| NewLocationMessage string string 'f 'f
| NewStickerMessage string string

text \<open>A key or a fixed literal between double quotes.\<close>

definition quoted :: "string \<Rightarrow> string" where
  \<open>quoted s = ''"'' @ s @ ''"''\<close>

text \<open>
  Modelled from the spec: a variant serializes to one flat JSON object whose first key
  is \<^verbatim>\<open>type\<close>, with a fixed literal naming the variant, followed by the variant's own
  fields in a fixed order; the key names and their order are those of the request bodies
  \<^verbatim>\<open>TestPushMessages\<close> expects. How a Go string or a \<^verbatim>\<open>float64\<close> is written as a JSON
  value is the JSON library's business: \<^term>\<open>str\<close> and \<^term>\<open>num\<close> stand for it.
\<close>

fun message_fields ::
  "(string \<Rightarrow> string) \<Rightarrow> ('f \<Rightarrow> string) \<Rightarrow> 'f Message \<Rightarrow> (string \<times> string) list" where
  "message_fields str num (NewTextMessage t) =
     [(''type'', quoted ''text''), (''text'', str t)]"
| "message_fields str num (NewImageMessage original preview) =
     [(''type'', quoted ''image''), (''originalContentUrl'', str original),
      (''previewImageUrl'', str preview)]"
| "message_fields str num (NewLocationMessage title address latitude longitude) =
     [(''type'', quoted ''location''), (''title'', str title), (''address'', str address),
      (''latitude'', num latitude), (''longitude'', num longitude)]"
| "message_fields str num (NewStickerMessage package sticker) =
     [(''type'', quoted ''sticker''), (''packageId'', str package), (''stickerId'', str sticker)]"

fun join :: "string \<Rightarrow> string list \<Rightarrow> string" where
  "join sep [] = []"
| "join sep [x] = x"
| "join sep (x # y # ys) = x @ sep @ join sep (y # ys)"

definition json_object :: "(string \<times> string) list \<Rightarrow> string" where
  "json_object members =
     ''{'' @ join '','' (map (\<lambda>(key, v). quoted key @ '':'' @ v) members) @ ''}''"

definition json_array :: "string list \<Rightarrow> string" where
  "json_array vs = ''['' @ join '','' vs @ '']''"

definition marshal_message :: "(string \<Rightarrow> string) \<Rightarrow> ('f \<Rightarrow> string) \<Rightarrow> 'f Message \<Rightarrow> string" where
  "marshal_message str num m = json_object (message_fields str num m)"

text \<open>
  Modelled from the spec: the push envelope \<^verbatim>\<open>{to: UserID, messages: [Message]}\<close>, the
  messages in the caller's order, and a newline after the encoded body. The code that
  builds and encodes the envelope is in none of the source files.
\<close>

definition push_request_body ::
  "(string \<Rightarrow> string) \<Rightarrow> ('f \<Rightarrow> string) \<Rightarrow> string \<Rightarrow> 'f Message list \<Rightarrow> string" where
  "push_request_body str num to messages =
     json_object
       [(''to'', str to),
        (''messages'', json_array (map (marshal_message str num) messages))]
     @ [CHR 0x0A]"

text \<open>The user id of the test file.\<close>

definition toUserID :: string where
  "toUserID = ''U0cc15697597f61dd8b01cea8b027050e''"

section \<open>Library answers for the examples\<close>

text \<open>
  The theorems below hold for every \<^verbatim>\<open>Decode\<close> and every \<^verbatim>\<open>ParseMediaType\<close>. Their
  instances need particular ones. \<^term>\<open>Decode_only text store\<close> is a \<^verbatim>\<open>Decode\<close> that
  accepts the one body \<^term>\<open>text\<close> on an open stream, storing into the value as
  \<^term>\<open>store\<close> says, and reports an error on anything else; either way it has read the
  stream to its end. \<^term>\<open>ParseMediaType_only header mediatype params\<close> parses the one
  header value \<^term>\<open>header\<close> and reports an error on any other.
\<close>

definition Decode_only :: "string \<Rightarrow> ('a \<Rightarrow> 'a) \<Rightarrow> (string, 'a) Decode" where
  "Decode_only text store body v =
     (if unread body = text \<and> \<not> closed body
      then (None, store v, body\<lparr>unread := []\<rparr>)
      else (Some ''json: cannot decode'', v, body\<lparr>unread := []\<rparr>))"

definition ParseMediaType_only ::
  "string \<Rightarrow> string \<Rightarrow> (string \<rightharpoonup> string) \<Rightarrow> string ParseMediaType" where
  "ParseMediaType_only header mediatype params s =
     (if s = header then (mediatype, params, None)
      else ([], Map.empty, Some ''mime: no media type''))"

text \<open>
  The body and the expected \<^verbatim>\<open>ErrorResponse\<close> of the bad request case of
  \<^verbatim>\<open>TestPushMessages\<close> (send_message_test.go).
\<close>

definition bad_request_body :: string where
  \<open>bad_request_body = ''{"message":"Request body has 2 error(s).","details":[{"message":"may not be empty","property":"messages[0].text"},{"message":"may not be empty","property":"messages[1].text"}]}''\<close>

definition bad_request_store :: "ErrorResponse \<Rightarrow> ErrorResponse" where
  "bad_request_store v =
     v\<lparr>ErrorResponse.Message := ''Request body has 2 error(s).'',
       Details :=
         [\<lparr>errorResponseDetail.Message = ''may not be empty'', Property = ''messages[0].text''\<rparr>,
          \<lparr>errorResponseDetail.Message = ''may not be empty'', Property = ''messages[1].text''\<rparr>]\<rparr>"

definition open_stream :: "string \<Rightarrow> ReadCloser" where
  "open_stream bytes = \<lparr>unread = bytes, closed = False\<rparr>"

section \<open>The two branches\<close>

lemma decodeToBasicResponse_not_OK:
  "StatusCode res \<noteq> 200 \<Longrightarrow>
     decodeToBasicResponse DecodeError DecodeBasic res = error_branch DecodeError res"
  by (simp add: decodeToBasicResponse_def error_branch_def StatusOK_def
        split: prod.splits option.splits)

lemma decodeToUserProfileResponse_not_OK:
  "StatusCode res \<noteq> 200 \<Longrightarrow>
     decodeToUserProfileResponse DecodeError DecodeProfile res = error_branch DecodeError res"
  by (simp add: decodeToUserProfileResponse_def error_branch_def StatusOK_def
        split: prod.splits option.splits)

lemma decodeToMessageContentResponse_not_OK:
  "StatusCode res \<noteq> 200 \<Longrightarrow>
     decodeToMessageContentResponse DecodeError ParseMediaType res =
       error_branch DecodeError res"
  by (simp add: decodeToMessageContentResponse_def error_branch_def StatusOK_def
        split: prod.splits option.splits)

lemma error_branch_decoded:
  "DecodeError (Body res) ErrorResponse_zero = (None, parsed, body) \<Longrightarrow>
     error_branch DecodeError res =
       (Inl (APIError_ptr \<lparr>Code = StatusCode res, Response = Some parsed\<rparr>), body)"
  by (simp add: error_branch_def)

lemma error_branch_undecoded:
  "DecodeError (Body res) ErrorResponse_zero = (Some err, partial, body) \<Longrightarrow>
     error_branch DecodeError res =
       (Inl (APIError_ptr \<lparr>Code = StatusCode res, Response = None\<rparr>), body)"
  by (simp add: error_branch_def)

lemma error_branch_code:
  "api_error_code (fst (error_branch DecodeError res)) = Some (StatusCode res)"
  by (simp add: error_branch_def split: prod.splits)

lemma error_branch_is_APIError:
  "is_APIError (fst (error_branch DecodeError res))"
  by (simp add: error_branch_def split: prod.splits)

lemma decodeToBasicResponse_OK:
  "StatusCode res = 200 \<Longrightarrow>
     decodeToBasicResponse DecodeError DecodeBasic res =
       (case DecodeBasic (Body res) BasicResponse_zero of
          (Some err, result, body) \<Rightarrow> (Inl (library_error err), body)
        | (None, result, body) \<Rightarrow> (Inr result, body))"
  by (simp add: decodeToBasicResponse_def StatusOK_def)

lemma decodeToUserProfileResponse_OK:
  "StatusCode res = 200 \<Longrightarrow>
     decodeToUserProfileResponse DecodeError DecodeProfile res =
       (case DecodeProfile (Body res) UserProfileResponse_zero of
          (Some err, result, body) \<Rightarrow> (Inl (library_error err), body)
        | (None, result, body) \<Rightarrow> (Inr result, body))"
  by (simp add: decodeToUserProfileResponse_def StatusOK_def)

lemma decodeToMessageContentResponse_OK:
  "StatusCode res = 200 \<Longrightarrow>
     decodeToMessageContentResponse DecodeError ParseMediaType res =
       (case ParseMediaType (Header_Get (Header res) ''Content-Disposition'') of
          (mediatype, params, Some err) \<Rightarrow> (Inl (library_error err), Body res)
        | (mediatype, params, None) \<Rightarrow>
            (Inr \<lparr>Content = Body res, FileName = map_index params ''filename''\<rparr>, Body res))"
  by (simp add: decodeToMessageContentResponse_def StatusOK_def)

section \<open>A status other than 200\<close>

text \<open>
  C1. For every response with a status code other than 200 whose body the library decodes
  as an \<^verbatim>\<open>ErrorResponse\<close> (\<^verbatim>\<open>Decode\<close> returns nil, having stored \<^term>\<open>parsed\<close>), each of
  the three decoders returns no success value and a pointer to an \<^verbatim>\<open>APIError\<close> whose
  \<^verbatim>\<open>Code\<close> is the status code of the response and whose \<^verbatim>\<open>Response\<close> is the parsed value
  as the library stored it: all of it, so also its \<^verbatim>\<open>Details\<close>, the same list in the same
  order.
\<close>

theorem APIError_carries_parsed_response:
  assumes "StatusCode res \<noteq> 200"
    and "DecodeError (Body res) ErrorResponse_zero = (None, parsed, body)"
  shows "fst (decodeToBasicResponse DecodeError DecodeBasic res) =
           Inl (APIError_ptr \<lparr>Code = StatusCode res, Response = Some parsed\<rparr>)
       \<and> fst (decodeToUserProfileResponse DecodeError DecodeProfile res) =
           Inl (APIError_ptr \<lparr>Code = StatusCode res, Response = Some parsed\<rparr>)
       \<and> fst (decodeToMessageContentResponse DecodeError ParseMediaType res) =
           Inl (APIError_ptr \<lparr>Code = StatusCode res, Response = Some parsed\<rparr>)"
  using assms
  by (simp add: decodeToBasicResponse_not_OK decodeToUserProfileResponse_not_OK
        decodeToMessageContentResponse_not_OK error_branch_decoded)

text \<open>
  The instance of the test file: status 400 and the body of its bad request case. The
  error carries the two details in the order of the body.
\<close>

theorem APIError_carries_parsed_response_witness:
  "fst (decodeToBasicResponse
          (Decode_only bad_request_body bad_request_store)
          (Decode_only ''{}'' (\<lambda>v. v))
          \<lparr>StatusCode = 400, Header = Map.empty, Body = open_stream bad_request_body\<rparr>) =
     Inl (APIError_ptr
       \<lparr>Code = 400,
        Response = Some
          \<lparr>ErrorResponse.RequestID = [],
           ErrorResponse.Message = ''Request body has 2 error(s).'',
           Details =
             [\<lparr>errorResponseDetail.Message = ''may not be empty'',
               Property = ''messages[0].text''\<rparr>,
              \<lparr>errorResponseDetail.Message = ''may not be empty'',
               Property = ''messages[1].text''\<rparr>]\<rparr>\<rparr>)"
proof -
  let ?res = "\<lparr>StatusCode = 400, Header = Map.empty, Body = open_stream bad_request_body\<rparr>"
  let ?dec = "Decode_only bad_request_body bad_request_store"
  have status: "StatusCode ?res \<noteq> 200"
    by simp
  have decoded: "?dec (Body ?res) ErrorResponse_zero =
      (None, bad_request_store ErrorResponse_zero, open_stream [])"
    by (simp add: Decode_only_def open_stream_def)
  show ?thesis
    using APIError_carries_parsed_response
        [where res = "?res" and DecodeError = "?dec"
           and DecodeBasic = "Decode_only ''{}'' (\<lambda>v. v)", OF status decoded]
    by (simp add: bad_request_store_def ErrorResponse_zero_def)
qed

text \<open>
  C2. For every response with a status code other than 200 whose body the library fails
  to decode as an \<^verbatim>\<open>ErrorResponse\<close> (\<^verbatim>\<open>Decode\<close> returns an error \<^term>\<open>err\<close>, whatever it
  had stored by then), each of the three decoders returns a pointer to an \<^verbatim>\<open>APIError\<close>
  whose \<^verbatim>\<open>Code\<close> is the status code and whose \<^verbatim>\<open>Response\<close> is nil; the error of the
  library is not what the decoder returns.
\<close>

theorem APIError_without_response:
  assumes "StatusCode res \<noteq> 200"
    and "DecodeError (Body res) ErrorResponse_zero = (Some err, partial, body)"
  shows "fst (decodeToBasicResponse DecodeError DecodeBasic res) =
           Inl (APIError_ptr \<lparr>Code = StatusCode res, Response = None\<rparr>)
       \<and> fst (decodeToUserProfileResponse DecodeError DecodeProfile res) =
           Inl (APIError_ptr \<lparr>Code = StatusCode res, Response = None\<rparr>)
       \<and> fst (decodeToMessageContentResponse DecodeError ParseMediaType res) =
           Inl (APIError_ptr \<lparr>Code = StatusCode res, Response = None\<rparr>)
       \<and> fst (decodeToBasicResponse DecodeError DecodeBasic res) \<noteq> Inl (library_error err)
       \<and> fst (decodeToUserProfileResponse DecodeError DecodeProfile res) \<noteq>
           Inl (library_error err)
       \<and> fst (decodeToMessageContentResponse DecodeError ParseMediaType res) \<noteq>
           Inl (library_error err)"
  using assms
  by (simp add: decodeToBasicResponse_not_OK decodeToUserProfileResponse_not_OK
        decodeToMessageContentResponse_not_OK error_branch_undecoded)

text \<open>The instance: status 400 and a body that is no JSON.\<close>

theorem APIError_without_response_witness:
  "fst (decodeToBasicResponse
          (Decode_only bad_request_body bad_request_store)
          (Decode_only ''{}'' (\<lambda>v. v))
          \<lparr>StatusCode = 400, Header = Map.empty, Body = open_stream ''<html>''\<rparr>) =
     Inl (APIError_ptr \<lparr>Code = 400, Response = None\<rparr>)"
proof -
  let ?res = "\<lparr>StatusCode = 400, Header = Map.empty, Body = open_stream ''<html>''\<rparr>"
  let ?dec = "Decode_only bad_request_body bad_request_store"
  have status: "StatusCode ?res \<noteq> 200"
    by simp
  have failed: "?dec (Body ?res) ErrorResponse_zero =
      (Some ''json: cannot decode'', ErrorResponse_zero, open_stream [])"
    by (simp add: Decode_only_def open_stream_def bad_request_body_def)
  show ?thesis
    using APIError_without_response
        [where res = "?res" and DecodeError = "?dec"
           and DecodeBasic = "Decode_only ''{}'' (\<lambda>v. v)", OF status failed]
    by simp
qed

section \<open>Which branch is taken\<close>

text \<open>
  C4. For every response, each of the three decoders takes the success branch if and
  only if the status code is 200. The branch shows in the result: what a decoder returns
  is an \<^verbatim>\<open>APIError\<close> exactly when the status code is not 200, and then that \<^verbatim>\<open>APIError\<close>
  carries the status code; with status 200 the result is a success value or an error of
  the library, never an \<^verbatim>\<open>APIError\<close>.
\<close>

theorem success_branch_iff_OK:
  "is_APIError (fst (decodeToBasicResponse DecodeError DecodeBasic res)) =
     (StatusCode res \<noteq> 200)
   \<and> api_error_code (fst (decodeToBasicResponse DecodeError DecodeBasic res)) =
     (if StatusCode res = 200 then None else Some (StatusCode res))
   \<and> is_APIError (fst (decodeToUserProfileResponse DecodeError DecodeProfile res)) =
     (StatusCode res \<noteq> 200)
   \<and> api_error_code (fst (decodeToUserProfileResponse DecodeError DecodeProfile res)) =
     (if StatusCode res = 200 then None else Some (StatusCode res))
   \<and> is_APIError (fst (decodeToMessageContentResponse DecodeError ParseMediaType res)) =
     (StatusCode res \<noteq> 200)
   \<and> api_error_code (fst (decodeToMessageContentResponse DecodeError ParseMediaType res)) =
     (if StatusCode res = 200 then None else Some (StatusCode res))"
proof (cases "StatusCode res = 200")
  case True
  then show ?thesis
    by (simp add: decodeToBasicResponse_OK decodeToUserProfileResponse_OK
          decodeToMessageContentResponse_OK split: prod.splits option.splits)
next
  case False
  then show ?thesis
    by (simp add: decodeToBasicResponse_not_OK decodeToUserProfileResponse_not_OK
          decodeToMessageContentResponse_not_OK error_branch_code error_branch_is_APIError)
qed

section \<open>Status 200 with a JSON body\<close>

text \<open>
  C3. For every response with status code 200 whose body the library fails to decode as
  the expected success shape (\<^verbatim>\<open>Decode\<close> into the \<^verbatim>\<open>BasicResponse\<close>, or into the
  \<^verbatim>\<open>UserProfileResponse\<close>, returns an error \<^term>\<open>err\<close>), the decoder returns that very
  error and no value; what it returns is not an \<^verbatim>\<open>APIError\<close>.
\<close>

theorem decode_error_returned_as_is:
  assumes "StatusCode res = 200"
  shows "(DecodeBasic (Body res) BasicResponse_zero = (Some err, partial, body) \<longrightarrow>
            fst (decodeToBasicResponse DecodeError DecodeBasic res) = Inl (library_error err)
          \<and> \<not> is_APIError (fst (decodeToBasicResponse DecodeError DecodeBasic res)))
       \<and> (DecodeProfile (Body res) UserProfileResponse_zero = (Some err', partial', body') \<longrightarrow>
            fst (decodeToUserProfileResponse DecodeError DecodeProfile res) =
              Inl (library_error err')
          \<and> \<not> is_APIError (fst (decodeToUserProfileResponse DecodeError DecodeProfile res)))"
  using assms
  by (simp add: decodeToBasicResponse_OK decodeToUserProfileResponse_OK)

text \<open>The instance: status 200 and a body that is no JSON, for both decoders.\<close>

theorem decode_error_returned_as_is_witness:
  "fst (decodeToBasicResponse
          (Decode_only bad_request_body bad_request_store)
          (Decode_only ''{}'' (\<lambda>v. v))
          \<lparr>StatusCode = 200, Header = Map.empty, Body = open_stream ''<html>''\<rparr>) =
     Inl (library_error ''json: cannot decode'')
   \<and> fst (decodeToUserProfileResponse
          (Decode_only bad_request_body bad_request_store)
          (Decode_only ''{}'' (\<lambda>v. v))
          \<lparr>StatusCode = 200, Header = Map.empty, Body = open_stream ''<html>''\<rparr>) =
     Inl (library_error ''json: cannot decode'')"
proof -
  let ?res = "\<lparr>StatusCode = 200, Header = Map.empty, Body = open_stream ''<html>''\<rparr>"
  let ?basic = "Decode_only ''{}'' (\<lambda>v. v) :: (string, BasicResponse) Decode"
  let ?profile = "Decode_only ''{}'' (\<lambda>v. v) :: (string, UserProfileResponse) Decode"
  have status: "StatusCode ?res = 200"
    by simp
  have basic: "?basic (Body ?res) BasicResponse_zero =
      (Some ''json: cannot decode'', BasicResponse_zero, open_stream [])"
    by (simp add: Decode_only_def open_stream_def)
  have profile: "?profile (Body ?res) UserProfileResponse_zero =
      (Some ''json: cannot decode'', UserProfileResponse_zero, open_stream [])"
    by (simp add: Decode_only_def open_stream_def)
  show ?thesis
    using decode_error_returned_as_is
        [where res = "?res" and DecodeBasic = "?basic" and DecodeProfile = "?profile"
           and DecodeError = "Decode_only bad_request_body bad_request_store"
           and err = "''json: cannot decode''" and partial = BasicResponse_zero
           and body = "open_stream []" and err' = "''json: cannot decode''"
           and partial' = UserProfileResponse_zero and body' = "open_stream []", OF status]
      basic profile
    by simp
qed

text \<open>
  C8. A response with status 200 and the body \<^verbatim>\<open>{}\<close> decodes, by
  \<^verbatim>\<open>decodeToBasicResponse\<close>, to a \<^verbatim>\<open>BasicResponse\<close> whose \<^verbatim>\<open>RequestID\<close> is the empty string,
  and no error. The part of the library is that decoding the empty object from an open
  stream stores nothing and returns nil (the first case of \<^verbatim>\<open>TestPushMessages\<close> relies on
  the same); the part of the decoder is to decode into the zero value
  \<^verbatim>\<open>BasicResponse{}\<close> and to return it.
\<close>

theorem empty_object_decodes_to_empty_BasicResponse:
  assumes "StatusCode res = 200"
    and "unread (Body res) = ''{}''"
    and "\<not> closed (Body res)"
    and "\<And>stream v. unread stream = ''{}'' \<Longrightarrow> \<not> closed stream \<Longrightarrow>
           fst (DecodeBasic stream v) = None \<and> fst (snd (DecodeBasic stream v)) = v"
  shows "fst (decodeToBasicResponse DecodeError DecodeBasic res) =
           Inr \<lparr>BasicResponse.RequestID = []\<rparr>"
proof -
  have "fst (DecodeBasic (Body res) BasicResponse_zero) = None
      \<and> fst (snd (DecodeBasic (Body res) BasicResponse_zero)) = BasicResponse_zero"
    using assms(2-4) by blast
  then obtain body where
    "DecodeBasic (Body res) BasicResponse_zero = (None, BasicResponse_zero, body)"
    by (cases "DecodeBasic (Body res) BasicResponse_zero") auto
  then show ?thesis
    using assms(1) by (simp add: decodeToBasicResponse_OK BasicResponse_zero_def)
qed

theorem empty_object_decodes_to_empty_BasicResponse_witness:
  "fst (decodeToBasicResponse
          (Decode_only bad_request_body bad_request_store)
          (Decode_only ''{}'' (\<lambda>v. v))
          \<lparr>StatusCode = 200, Header = Map.empty, Body = open_stream ''{}''\<rparr>) =
     Inr \<lparr>BasicResponse.RequestID = []\<rparr>"
proof -
  let ?res = "\<lparr>StatusCode = 200, Header = Map.empty, Body = open_stream ''{}''\<rparr>"
  let ?basic = "Decode_only ''{}'' (\<lambda>v. v) :: (string, BasicResponse) Decode"
  have status: "StatusCode ?res = 200"
    by simp
  have bytes: "unread (Body ?res) = ''{}''"
    by (simp add: open_stream_def)
  have opened: "\<not> closed (Body ?res)"
    by (simp add: open_stream_def)
  have library: "fst (?basic stream v) = None \<and> fst (snd (?basic stream v)) = v"
    if "unread stream = ''{}''" and "\<not> closed stream" for stream v
    using that by (simp add: Decode_only_def)
  show ?thesis
    by (rule empty_object_decodes_to_empty_BasicResponse
          [where res = "?res" and DecodeBasic = "?basic", OF status bytes opened library])
qed

section \<open>Status 200 on a content endpoint\<close>

lemma Header_Get_missing: "h key = None \<Longrightarrow> Header_Get h key = []"
  by (simp add: Header_Get_def)

lemma Header_Get_first: "h key = Some (v # vs) \<Longrightarrow> Header_Get h key = v"
  by (simp add: Header_Get_def)

text \<open>
  C6. For every response with status 200 whose \<^verbatim>\<open>Content-Disposition\<close> header the library
  parses (\<^verbatim>\<open>ParseMediaType\<close> returns a nil error) with a \<^verbatim>\<open>filename\<close> parameter,
  \<^verbatim>\<open>decodeToMessageContentResponse\<close> returns no error and a \<^verbatim>\<open>MessageContentResponse\<close>
  whose \<^verbatim>\<open>FileName\<close> is the value of that parameter and whose \<^verbatim>\<open>Content\<close> is the body
  stream of the response as it was handed in: nothing has been read from it and it has
  not been closed, so a stream that came open is still open, with all its bytes.
\<close>

theorem content_response_with_filename:
  assumes "StatusCode res = 200"
    and "ParseMediaType (Header_Get (Header res) ''Content-Disposition'') =
           (mediatype, params, None)"
    and "params ''filename'' = Some name"
  shows "decodeToMessageContentResponse DecodeError ParseMediaType res =
           (Inr \<lparr>Content = Body res, FileName = name\<rparr>, Body res)"
  using assms by (simp add: decodeToMessageContentResponse_OK map_index_def)

text \<open>
  The instance: the header \<^verbatim>\<open>attachment; filename=foo.png\<close> and an open stream of
  eleven bytes.
\<close>

theorem content_response_with_filename_witness:
  "decodeToMessageContentResponse
     (Decode_only bad_request_body bad_request_store)
     (ParseMediaType_only ''attachment; filename=foo.png'' ''attachment''
        [''filename'' \<mapsto> ''foo.png''])
     \<lparr>StatusCode = 200,
      Header = [''Content-Disposition'' \<mapsto> [''attachment; filename=foo.png'']],
      Body = \<lparr>unread = ''image bytes'', closed = False\<rparr>\<rparr> =
   (Inr \<lparr>Content = \<lparr>unread = ''image bytes'', closed = False\<rparr>, FileName = ''foo.png''\<rparr>,
    \<lparr>unread = ''image bytes'', closed = False\<rparr>)"
proof -
  let ?res = "\<lparr>StatusCode = 200,
      Header = [''Content-Disposition'' \<mapsto> [''attachment; filename=foo.png'']],
      Body = \<lparr>unread = ''image bytes'', closed = False\<rparr>\<rparr>"
  let ?parse = "ParseMediaType_only ''attachment; filename=foo.png'' ''attachment''
        [''filename'' \<mapsto> ''foo.png'']"
  have status: "StatusCode ?res = 200"
    by simp
  have parsed: "?parse (Header_Get (Header ?res) ''Content-Disposition'') =
      (''attachment'', [''filename'' \<mapsto> ''foo.png''], None)"
    by (simp add: ParseMediaType_only_def Header_Get_def)
  have param: "[''filename'' \<mapsto> ''foo.png''] ''filename'' = Some ''foo.png''"
    by simp
  show ?thesis
    using content_response_with_filename
        [where res = "?res" and ParseMediaType = "?parse"
           and DecodeError = "Decode_only bad_request_body bad_request_store",
         OF status parsed param]
    by simp
qed

text \<open>
  C10. For every response with status 200 whose \<^verbatim>\<open>Content-Disposition\<close> header the
  library parses as a media type that has no \<^verbatim>\<open>filename\<close> parameter,
  \<^verbatim>\<open>decodeToMessageContentResponse\<close> returns no error and a \<^verbatim>\<open>MessageContentResponse\<close>
  whose \<^verbatim>\<open>FileName\<close> is the empty string.
\<close>

theorem content_response_without_filename:
  assumes "StatusCode res = 200"
    and "ParseMediaType (Header_Get (Header res) ''Content-Disposition'') =
           (mediatype, params, None)"
    and "params ''filename'' = None"
  shows "decodeToMessageContentResponse DecodeError ParseMediaType res =
           (Inr \<lparr>Content = Body res, FileName = []\<rparr>, Body res)"
  using assms by (simp add: decodeToMessageContentResponse_OK map_index_def)

text \<open>The instance: the header \<^verbatim>\<open>inline\<close>, a media type without parameters.\<close>

theorem content_response_without_filename_witness:
  "decodeToMessageContentResponse
     (Decode_only bad_request_body bad_request_store)
     (ParseMediaType_only ''inline'' ''inline'' Map.empty)
     \<lparr>StatusCode = 200, Header = [''Content-Disposition'' \<mapsto> [''inline'']],
      Body = \<lparr>unread = ''image bytes'', closed = False\<rparr>\<rparr> =
   (Inr \<lparr>Content = \<lparr>unread = ''image bytes'', closed = False\<rparr>, FileName = []\<rparr>,
    \<lparr>unread = ''image bytes'', closed = False\<rparr>)"
proof -
  let ?res = "\<lparr>StatusCode = 200, Header = [''Content-Disposition'' \<mapsto> [''inline'']],
      Body = \<lparr>unread = ''image bytes'', closed = False\<rparr>\<rparr>"
  let ?parse = "ParseMediaType_only ''inline'' ''inline'' Map.empty"
  have status: "StatusCode ?res = 200"
    by simp
  have parsed: "?parse (Header_Get (Header ?res) ''Content-Disposition'') =
      (''inline'', Map.empty, None)"
    by (simp add: ParseMediaType_only_def Header_Get_def)
  have param: "(Map.empty :: string \<rightharpoonup> string) ''filename'' = None"
    by simp
  show ?thesis
    using content_response_without_filename
        [where res = "?res" and ParseMediaType = "?parse"
           and DecodeError = "Decode_only bad_request_body bad_request_store",
         OF status parsed param]
    by simp
qed

text \<open>
  C7. For every response with status 200 whose \<^verbatim>\<open>Content-Disposition\<close> header does not
  parse as a media type (\<^verbatim>\<open>ParseMediaType\<close> returns an error \<^term>\<open>err\<close> on the value of
  the header), \<^verbatim>\<open>decodeToMessageContentResponse\<close> returns no \<^verbatim>\<open>MessageContentResponse\<close>
  and that very error, which is not an \<^verbatim>\<open>APIError\<close>. A missing header is the case of the
  empty string: \<^verbatim>\<open>Header.Get\<close> returns it, and the library is asked to parse it (Go's
  \<^verbatim>\<open>mime.ParseMediaType\<close> answers \<^verbatim>\<open>mime: no media type\<close>).
\<close>

theorem content_response_bad_disposition:
  assumes "StatusCode res = 200"
  shows "(ParseMediaType (Header_Get (Header res) ''Content-Disposition'') =
            (mediatype, params, Some err) \<longrightarrow>
          fst (decodeToMessageContentResponse DecodeError ParseMediaType res) =
            Inl (library_error err)
          \<and> \<not> is_APIError (fst (decodeToMessageContentResponse DecodeError ParseMediaType res)))
       \<and> (Header res ''Content-Disposition'' = None
          \<and> ParseMediaType [] = (mediatype', params', Some err') \<longrightarrow>
          fst (decodeToMessageContentResponse DecodeError ParseMediaType res) =
            Inl (library_error err')
          \<and> \<not> is_APIError (fst (decodeToMessageContentResponse DecodeError ParseMediaType res)))"
  using assms
  by (simp add: decodeToMessageContentResponse_OK Header_Get_missing)

text \<open>
  Two instances: a response without the header, and one whose header is no media type.
\<close>

theorem content_response_bad_disposition_witness:
  "fst (decodeToMessageContentResponse
          (Decode_only bad_request_body bad_request_store)
          (ParseMediaType_only ''attachment; filename=foo.png'' ''attachment''
             [''filename'' \<mapsto> ''foo.png''])
          \<lparr>StatusCode = 200, Header = Map.empty,
           Body = \<lparr>unread = ''image bytes'', closed = False\<rparr>\<rparr>) =
     Inl (library_error ''mime: no media type'')
   \<and> fst (decodeToMessageContentResponse
          (Decode_only bad_request_body bad_request_store)
          (ParseMediaType_only ''attachment; filename=foo.png'' ''attachment''
             [''filename'' \<mapsto> ''foo.png''])
          \<lparr>StatusCode = 200, Header = [''Content-Disposition'' \<mapsto> ['';'']],
           Body = \<lparr>unread = ''image bytes'', closed = False\<rparr>\<rparr>) =
     Inl (library_error ''mime: no media type'')"
proof -
  let ?missing = "\<lparr>StatusCode = 200, Header = Map.empty,
      Body = \<lparr>unread = ''image bytes'', closed = False\<rparr>\<rparr>"
  let ?bad = "\<lparr>StatusCode = 200, Header = [''Content-Disposition'' \<mapsto> ['';'']],
      Body = \<lparr>unread = ''image bytes'', closed = False\<rparr>\<rparr>"
  let ?parse = "ParseMediaType_only ''attachment; filename=foo.png'' ''attachment''
        [''filename'' \<mapsto> ''foo.png'']"
  let ?dec = "Decode_only bad_request_body bad_request_store"
  have status_missing: "StatusCode ?missing = 200"
    by simp
  have status_bad: "StatusCode ?bad = 200"
    by simp
  have absent: "Header ?missing ''Content-Disposition'' = None"
    by simp
  have empty: "?parse [] = ([], Map.empty, Some ''mime: no media type'')"
    by (simp add: ParseMediaType_only_def)
  have unparsed: "?parse (Header_Get (Header ?bad) ''Content-Disposition'') =
      ([], Map.empty, Some ''mime: no media type'')"
    by (simp add: ParseMediaType_only_def Header_Get_def)
  have first: "fst (decodeToMessageContentResponse ?dec ?parse ?missing) =
      Inl (library_error ''mime: no media type'')"
    using content_response_bad_disposition
        [where res = "?missing" and ParseMediaType = "?parse" and DecodeError = "?dec"
           and mediatype' = "[]" and params' = Map.empty
           and err' = "''mime: no media type''", OF status_missing]
      absent empty
    by blast
  have second: "fst (decodeToMessageContentResponse ?dec ?parse ?bad) =
      Inl (library_error ''mime: no media type'')"
    using content_response_bad_disposition
        [where res = "?bad" and ParseMediaType = "?parse" and DecodeError = "?dec"
           and mediatype = "[]" and params = Map.empty
           and err = "''mime: no media type''", OF status_bad]
      unparsed
    by blast
  show ?thesis
    using first second by (rule conjI)
qed

section \<open>The request body of a push\<close>

lemma marshal_message_text:
  \<open>marshal_message str num (NewTextMessage t) = ''{"type":"text","text":'' @ str t @ ''}''\<close>
  by (simp add: marshal_message_def json_object_def quoted_def)

lemma marshal_message_image:
  \<open>marshal_message str num (NewImageMessage original preview) =
     ''{"type":"image","originalContentUrl":'' @ str original
       @ '',"previewImageUrl":'' @ str preview @ ''}''\<close>
  by (simp add: marshal_message_def json_object_def quoted_def)

lemma marshal_message_location:
  \<open>marshal_message str num (NewLocationMessage title address latitude longitude) =
     ''{"type":"location","title":'' @ str title @ '',"address":'' @ str address
       @ '',"latitude":'' @ num latitude @ '',"longitude":'' @ num longitude @ ''}''\<close>
  by (simp add: marshal_message_def json_object_def quoted_def)

lemma marshal_message_sticker:
  \<open>marshal_message str num (NewStickerMessage package sticker) =
     ''{"type":"sticker","packageId":'' @ str package
       @ '',"stickerId":'' @ str sticker @ ''}''\<close>
  by (simp add: marshal_message_def json_object_def quoted_def)

lemma type_is_first_key:
  "\<exists>name members. message_fields str num m = (''type'', quoted name) # members"
  by (cases m) auto

lemma push_request_body_single:
  \<open>push_request_body str num to [m] =
     ''{"to":'' @ str to @ '',"messages":['' @ marshal_message str num m @ '']}'' @ [CHR 0x0A]\<close>
  by (simp add: push_request_body_def json_object_def json_array_def quoted_def)

text \<open>
  C5. For each of the four message variants, serialization gives one fixed sequence of
  bytes: an object whose first key is \<^verbatim>\<open>type\<close>, then the variant's fields in a fixed
  order, each value written by the JSON library (\<^term>\<open>str\<close>, \<^term>\<open>num\<close>). A push of one
  message wraps it as \<^verbatim>\<open>{"to":...,"messages":[...]}\<close> and a newline. In particular, where
  the library writes the user id and \<^verbatim>\<open>Hello, world\<close> as they are between double
  quotes (neither holds a character JSON escapes), the push of
  \<^verbatim>\<open>NewTextMessage("Hello, world")\<close> is exactly
  \<^verbatim>\<open>{"to":"<userId>","messages":[{"type":"text","text":"Hello, world"}]}\<close> and a newline.
\<close>

theorem push_serialization:
  \<open>(\<exists>name members. message_fields str num m = (''type'', quoted name) # members)
   \<and> marshal_message str num (NewTextMessage t) =
       ''{"type":"text","text":'' @ str t @ ''}''
   \<and> marshal_message str num (NewImageMessage original preview) =
       ''{"type":"image","originalContentUrl":'' @ str original
         @ '',"previewImageUrl":'' @ str preview @ ''}''
   \<and> marshal_message str num (NewLocationMessage title address latitude longitude) =
       ''{"type":"location","title":'' @ str title @ '',"address":'' @ str address
         @ '',"latitude":'' @ num latitude @ '',"longitude":'' @ num longitude @ ''}''
   \<and> marshal_message str num (NewStickerMessage package sticker) =
       ''{"type":"sticker","packageId":'' @ str package
         @ '',"stickerId":'' @ str sticker @ ''}''
   \<and> push_request_body str num to [m] =
       ''{"to":'' @ str to @ '',"messages":['' @ marshal_message str num m @ '']}''
         @ [CHR 0x0A]
   \<and> (str to = quoted to \<and> str ''Hello, world'' = quoted ''Hello, world'' \<longrightarrow>
       push_request_body str num to [NewTextMessage ''Hello, world''] =
         ''{"to":"'' @ to @ ''","messages":[{"type":"text","text":"Hello, world"}]}''
           @ [CHR 0x0A])\<close>
proof -
  have particular:
    \<open>str to = quoted to \<and> str ''Hello, world'' = quoted ''Hello, world'' \<longrightarrow>
       push_request_body str num to [NewTextMessage ''Hello, world''] =
         ''{"to":"'' @ to @ ''","messages":[{"type":"text","text":"Hello, world"}]}''
           @ [CHR 0x0A]\<close>
    by (simp add: push_request_body_single marshal_message_text quoted_def)
  show ?thesis
    by (intro conjI)
      (rule type_is_first_key marshal_message_text marshal_message_image
         marshal_message_location marshal_message_sticker push_request_body_single
         particular)+
qed

text \<open>
  The instance of the test file: its user id, and a library that writes a string
  without a character to escape between double quotes.
\<close>

theorem push_serialization_witness:
  \<open>push_request_body quoted (\<lambda>x :: unit. []) toUserID [NewTextMessage ''Hello, world''] =
     ''{"to":"U0cc15697597f61dd8b01cea8b027050e","messages":[{"type":"text","text":"Hello, world"}]}''
       @ [CHR 0x0A]\<close>
proof -
  have \<open>push_request_body quoted (\<lambda>x :: unit. []) toUserID [NewTextMessage ''Hello, world''] =
      ''{"to":"'' @ toUserID @ ''","messages":[{"type":"text","text":"Hello, world"}]}''
        @ [CHR 0x0A]\<close>
    using push_serialization [where str = quoted and num = "\<lambda>x :: unit. []" and to = toUserID]
    by blast
  then show ?thesis
    by (simp add: toUserID_def)
qed

text \<open>
  The other request bodies \<^verbatim>\<open>TestPushMessages\<close> expects, with the same library: an image,
  a sticker, and two empty texts in the caller's order.
\<close>

lemma push_request_body_image_example:
  \<open>push_request_body quoted (\<lambda>x :: unit. []) toUserID
     [NewImageMessage ''http://example.com/original.jpg'' ''http://example.com/preview.jpg''] =
     ''{"to":"U0cc15697597f61dd8b01cea8b027050e","messages":[{"type":"image","originalContentUrl":"http://example.com/original.jpg","previewImageUrl":"http://example.com/preview.jpg"}]}''
       @ [CHR 0x0A]\<close>
  by (simp add: push_request_body_single marshal_message_image quoted_def toUserID_def)

lemma push_request_body_sticker_example:
  \<open>push_request_body quoted (\<lambda>x :: unit. []) toUserID [NewStickerMessage ''1'' ''1''] =
     ''{"to":"U0cc15697597f61dd8b01cea8b027050e","messages":[{"type":"sticker","packageId":"1","stickerId":"1"}]}''
       @ [CHR 0x0A]\<close>
  by (simp add: push_request_body_single marshal_message_sticker quoted_def toUserID_def)

lemma push_request_body_two_texts_example:
  \<open>push_request_body quoted (\<lambda>x :: unit. []) toUserID
     [NewTextMessage [], NewTextMessage []] =
     ''{"to":"U0cc15697597f61dd8b01cea8b027050e","messages":[{"type":"text","text":""},{"type":"text","text":""}]}''
       @ [CHR 0x0A]\<close>
  by (simp add: push_request_body_def json_object_def json_array_def marshal_message_text
        quoted_def toUserID_def)

end
